theory Spec2Isabelle
  imports Main "HOL-Library.Word"
begin

unbundle bit_operations_syntax

section \<open>The connection wrapper of \<open>src/sqlite/db.cpp\<close>\<close>

text \<open>
  \<open>Db\<close> wraps one native \<open>sqlite3\<close> connection. Every method is a direct call into
  the native engine, so the model threads a \<open>world\<close> through each method: the list of
  native calls made so far, in order, and the number of \<open>Stmt\<close> objects alive on the
  heap. The engine itself is outside the repository: what it answers to a call is a
  parameter (\<open>engine\<close>), and every theorem holds for every engine.
  A C++ exception is a value of \<open>exn\<close>; a method that can throw returns \<open>exn + 'a\<close>
  (\<open>Inl\<close> the exception), together with the world it leaves behind.
\<close>

subsection \<open>Native types and constants\<close>

type_synonym c_int = "32 word"
type_synonym sqlite3_int64 = "64 word"
type_synonym int64_t = "64 word"

text \<open>A native pointer is the address it holds; \<open>None\<close> is \<open>nullptr\<close>.\<close>

type_synonym sqlite3 = nat
type_synonym sqlite3_stmt = nat

text \<open>
  The constants below are macros of the engine's public header \<open>sqlite3.h\<close>, which
  \<open>db.cpp\<close> includes and which is not among the sources; they carry the values that
  header gives them.
\<close>

definition SQLITE_OK :: c_int where
  "SQLITE_OK = 0"

definition SQLITE_DELETE :: c_int where
  "SQLITE_DELETE = 9"

definition SQLITE_INSERT :: c_int where
  "SQLITE_INSERT = 18"

definition SQLITE_UPDATE :: c_int where
  "SQLITE_UPDATE = 23"

definition SQLITE_OPEN_READWRITE :: c_int where
  "SQLITE_OPEN_READWRITE = 0x00000002"

definition SQLITE_OPEN_CREATE :: c_int where
  "SQLITE_OPEN_CREATE = 0x00000004"

definition SQLITE_OPEN_NOMUTEX :: c_int where
  "SQLITE_OPEN_NOMUTEX = 0x00008000"

definition SQLITE_OPEN_PRIVATECACHE :: c_int where
  "SQLITE_OPEN_PRIVATECACHE = 0x00040000"

subsection \<open>Exceptions, native calls, the world\<close>

datatype exn =
    runtime_error string
  | bad_function_call
  | other_exception string

datatype native_call =
    Sqlite3_open_v2 string c_int
  | Sqlite3_close_v2 sqlite3
  | Sqlite3_exec "sqlite3 option" string
  | Sqlite3_prepare_v2 "sqlite3 option" string c_int
  | Sqlite3_finalize sqlite3_stmt
  | Sqlite3_update_hook "sqlite3 option"
  | Sqlite3_commit_hook "sqlite3 option"
  | Sqlite3_rollback_hook "sqlite3 option"

record world =
  calls :: "native_call list"
  Stmt_objects :: nat

definition native :: "native_call \<Rightarrow> world \<Rightarrow> world" where
  "native c w = w\<lparr>calls := calls w @ [c]\<rparr>"

text \<open>
  What the engine answers. Each answer may depend on the calls made before it.
  \<open>sqlite3_open_v2\<close> answers a status and the pointer it stores in \<open>*ppDb\<close>;
  \<open>sqlite3_exec\<close> a status and the pointer it stores in \<open>*errmsg\<close>;
  \<open>sqlite3_prepare_v2\<close> a status and the pointer it stores in \<open>*ppStmt\<close>.
\<close>

record engine =
  sqlite3_open_v2 :: "native_call list \<Rightarrow> string \<Rightarrow> c_int \<Rightarrow> c_int \<times> sqlite3 option"
  sqlite3_errstr :: "c_int \<Rightarrow> string"
  sqlite3_exec :: "native_call list \<Rightarrow> sqlite3 option \<Rightarrow> string \<Rightarrow> c_int \<times> string option"
  sqlite3_prepare_v2 ::
    "native_call list \<Rightarrow> sqlite3 option \<Rightarrow> string \<Rightarrow> c_int \<Rightarrow> c_int \<times> sqlite3_stmt option"

subsection \<open>\<open>db.hpp\<close>: the class\<close>

datatype ChangeType = INSERT | UPDATE | DELETE

text \<open>
  A hook closure runs caller code: it reads and writes the caller's own state \<open>'u\<close> and
  either returns or throws. A \<open>std::function\<close> member is \<open>None\<close> when it is empty
  (default-constructed, or assigned \<open>nullptr\<close>).
\<close>

type_synonym 'u UpdateHookFn =
  "ChangeType \<Rightarrow> string \<Rightarrow> string \<Rightarrow> int64_t \<Rightarrow> 'u \<Rightarrow> (exn + unit) \<times> 'u"
type_synonym 'u CommitHookFn = "'u \<Rightarrow> (exn + bool) \<times> 'u"
type_synonym 'u RollbackHookFn = "'u \<Rightarrow> (exn + unit) \<times> 'u"

record 'u Db =
  m_db :: "sqlite3 option"
  m_update_hook :: "'u UpdateHookFn option"
  m_commit_hook :: "'u CommitHookFn option"
  m_rollback_hook :: "'u RollbackHookFn option"

text \<open>\<open>std::function::operator()\<close>: calling an empty function object throws.\<close>

definition call_UpdateHookFn ::
  "'u UpdateHookFn option \<Rightarrow> ChangeType \<Rightarrow> string \<Rightarrow> string \<Rightarrow> int64_t \<Rightarrow> 'u \<Rightarrow> (exn + unit) \<times> 'u"
where
  "call_UpdateHookFn fn type db_name table_name row_id u =
     (case fn of
        None \<Rightarrow> (Inl bad_function_call, u)
      | Some f \<Rightarrow> f type db_name table_name row_id u)"

definition call_CommitHookFn :: "'u CommitHookFn option \<Rightarrow> 'u \<Rightarrow> (exn + bool) \<times> 'u" where
  "call_CommitHookFn fn u = (case fn of None \<Rightarrow> (Inl bad_function_call, u) | Some f \<Rightarrow> f u)"

definition call_RollbackHookFn :: "'u RollbackHookFn option \<Rightarrow> 'u \<Rightarrow> (exn + unit) \<times> 'u" where
  "call_RollbackHookFn fn u = (case fn of None \<Rightarrow> (Inl bad_function_call, u) | Some f \<Rightarrow> f u)"

subsection \<open>\<open>db.cpp\<close>: construction and release\<close>

text \<open>\<open>Db::Closer::operator()\<close>.\<close>

definition Closer :: "sqlite3 \<Rightarrow> world \<Rightarrow> world" where
  "Closer db w = native (Sqlite3_close_v2 db) w"

text \<open>
  The destructor of \<open>unique_ptr<sqlite3, Db::Closer>\<close>: the deleter runs on a pointer
  that is not null.
\<close>

definition unique_ptr_destroy :: "sqlite3 option \<Rightarrow> world \<Rightarrow> world" where
  "unique_ptr_destroy p w = (case p of None \<Rightarrow> w | Some db \<Rightarrow> Closer db w)"

text \<open>\<open>Db::Db\<close>: the three hook members are default-constructed, so empty.\<close>

definition Db_ctor :: "sqlite3 option \<Rightarrow> 'u Db" where
  "Db_ctor db = \<lparr>m_db = db, m_update_hook = None, m_commit_hook = None, m_rollback_hook = None\<rparr>"

definition open_flags :: c_int where
  "open_flags =
     SQLITE_OPEN_READWRITE OR SQLITE_OPEN_CREATE OR SQLITE_OPEN_NOMUTEX OR SQLITE_OPEN_PRIVATECACHE"

text \<open>
  \<open>Db::open\<close>. On the throwing path the local \<open>temp_db\<close> still owns the pointer, and
  is destroyed while the exception unwinds; on the other path it was moved into the
  new \<open>Db\<close>.
\<close>

definition Db_open :: "engine \<Rightarrow> string \<Rightarrow> world \<Rightarrow> (exn + 'u Db) \<times> world" where
  "Db_open eng db_path w =
     (let flags = open_flags;
          (error_code, db) = sqlite3_open_v2 eng (calls w) db_path flags;
          w1 = native (Sqlite3_open_v2 db_path flags) w;
          temp_db = db
      in if error_code \<noteq> SQLITE_OK
         then (Inl (runtime_error (sqlite3_errstr eng error_code)), unique_ptr_destroy temp_db w1)
         else (Inr (Db_ctor temp_db), w1))"

definition Db_open_memory :: "engine \<Rightarrow> world \<Rightarrow> (exn + 'u Db) \<times> world" where
  "Db_open_memory eng w = Db_open eng '':memory:'' w"

definition Db_inherit_db :: "sqlite3 option \<Rightarrow> 'u Db" where
  "Db_inherit_db db = (let temp_db = db in Db_ctor temp_db)"

definition Db_borrow_db :: "'u Db \<Rightarrow> sqlite3 option" where
  "Db_borrow_db this = m_db this"

subsection \<open>\<open>db.cpp\<close>: \<open>exec\<close>\<close>

definition Db_exec :: "engine \<Rightarrow> 'u Db \<Rightarrow> string \<Rightarrow> world \<Rightarrow> (exn + unit) \<times> world" where
  "Db_exec eng this sql w =
     (let (result, error_msg) = sqlite3_exec eng (calls w) (m_db this) sql;
          w1 = native (Sqlite3_exec (m_db this) sql) w
      in if result \<noteq> 0 \<and> error_msg \<noteq> None
         then (case error_msg of
                 Some msg \<Rightarrow> (Inl (runtime_error msg), w1)
               | None \<Rightarrow> (Inl (runtime_error ''Unknown error''), w1))
         else (Inr (), w1))"

subsection \<open>\<open>db.cpp\<close>: the hooks\<close>

text \<open>
  Each registration method stores the closure in the member of its kind and hands the
  engine a trampoline (the lambda) with \<open>this\<close> as its context pointer. A method takes
  and returns the connection together with the world.
\<close>

definition Db_update_hook :: "'u UpdateHookFn option \<Rightarrow> 'u Db \<times> world \<Rightarrow> 'u Db \<times> world" where
  "Db_update_hook update_fn s =
     (case s of (this, w) \<Rightarrow>
        (this\<lparr>m_update_hook := update_fn\<rparr>, native (Sqlite3_update_hook (m_db this)) w))"

definition Db_commit_hook :: "'u CommitHookFn option \<Rightarrow> 'u Db \<times> world \<Rightarrow> 'u Db \<times> world" where
  "Db_commit_hook commit_fn s =
     (case s of (this, w) \<Rightarrow>
        (this\<lparr>m_commit_hook := commit_fn\<rparr>, native (Sqlite3_commit_hook (m_db this)) w))"

definition Db_rollback_hook :: "'u RollbackHookFn option \<Rightarrow> 'u Db \<times> world \<Rightarrow> 'u Db \<times> world" where
  "Db_rollback_hook rollback_fn s =
     (case s of (this, w) \<Rightarrow>
        (this\<lparr>m_rollback_hook := rollback_fn\<rparr>, native (Sqlite3_rollback_hook (m_db this)) w))"

text \<open>The \<open>switch\<close> of the update trampoline; \<open>None\<close> is \<open>nullopt\<close>.\<close>

definition switch_change_type :: "c_int \<Rightarrow> ChangeType option" where
  "switch_change_type change_type =
     (if change_type = SQLITE_INSERT then Some INSERT
      else if change_type = SQLITE_UPDATE then Some UPDATE
      else if change_type = SQLITE_DELETE then Some DELETE
      else None)"

text \<open>
  The trampolines, as the engine calls them: \<open>db\<close> is the connection behind the
  context pointer, \<open>u\<close> the caller's state when the hook fires. None of them has a
  \<open>try\<close> block.
\<close>

definition update_hook_trampoline ::
  "'u Db \<Rightarrow> c_int \<Rightarrow> string \<Rightarrow> string \<Rightarrow> sqlite3_int64 \<Rightarrow> 'u \<Rightarrow> (exn + unit) \<times> 'u"
where
  "update_hook_trampoline db change_type db_name table_name row_id u =
     (if m_update_hook db \<noteq> None
      then (let update_hook = m_update_hook db;
                type = switch_change_type change_type
            in case type of
                 None \<Rightarrow> (Inl (runtime_error ''Unexpected update type from sqlite''), u)
               | Some t \<Rightarrow> call_UpdateHookFn update_hook t db_name table_name row_id u)
      else (Inr (), u))"

definition commit_hook_trampoline :: "'u Db \<Rightarrow> 'u \<Rightarrow> (exn + c_int) \<times> 'u" where
  "commit_hook_trampoline db u =
     (if m_commit_hook db \<noteq> None
      then (let commit_hook = m_commit_hook db
            in case call_CommitHookFn commit_hook u of
                 (Inl e, u') \<Rightarrow> (Inl e, u')
               | (Inr result, u') \<Rightarrow> (Inr (if result then 0 else 1), u'))
      else (Inr 0, u))"

definition rollback_hook_trampoline :: "'u Db \<Rightarrow> 'u \<Rightarrow> (exn + unit) \<times> 'u" where
  "rollback_hook_trampoline db u =
     (if m_rollback_hook db \<noteq> None
      then (let rollback_hook = m_rollback_hook db in call_RollbackHookFn rollback_hook u)
      else (Inr (), u))"

subsection \<open>\<open>db.cpp\<close>: \<open>prepare\<close>\<close>

text \<open>
  Modelled from the spec: the class \<open>Stmt\<close> (\<open>stmt.hpp\<close>, \<open>stmt.cpp\<close>), which is not
  among the sources. The spec: a Statement has a native statement resource and a strong
  reference to its owning Connection; the Connection constructs it by pairing the two;
  it is destroyed when it is dropped, releasing the native statement resource and the
  reference to the Connection.
\<close>

record 'u Stmt =
  native_statement :: "sqlite3_stmt option"
  connection :: "'u Db"

definition new_Stmt :: "sqlite3_stmt option \<Rightarrow> 'u Db \<Rightarrow> world \<Rightarrow> 'u Stmt \<times> world" where
  "new_Stmt stmt db w =
     (\<lparr>native_statement = stmt, connection = db\<rparr>, w\<lparr>Stmt_objects := Suc (Stmt_objects w)\<rparr>)"

definition delete_Stmt :: "'u Stmt \<Rightarrow> world \<Rightarrow> world" where
  "delete_Stmt s w =
     (let w1 = (case native_statement s of
                  None \<Rightarrow> w
                | Some stmt \<Rightarrow> native (Sqlite3_finalize stmt) w)
      in w1\<lparr>Stmt_objects := Stmt_objects w1 - 1\<rparr>)"

text \<open>
  \<open>Db::prepare\<close>. The \<open>Stmt\<close> is allocated before the status is looked at; on the
  throwing path its only owner is the local \<open>wrapped_stmt\<close>, destroyed while the
  exception unwinds.
\<close>

definition Db_prepare :: "engine \<Rightarrow> 'u Db \<Rightarrow> string \<Rightarrow> world \<Rightarrow> (exn + 'u Stmt) \<times> world" where
  "Db_prepare eng this sql w =
     (let n = (word_of_nat (length sql) :: c_int);
          (error_code, stmt) = sqlite3_prepare_v2 eng (calls w) (m_db this) sql n;
          w1 = native (Sqlite3_prepare_v2 (m_db this) sql n) w;
          (raw_stmt, w2) = new_Stmt stmt this w1;
          wrapped_stmt = raw_stmt
      in if error_code \<noteq> SQLITE_OK
         then (Inl (runtime_error (sqlite3_errstr eng error_code)), delete_Stmt wrapped_stmt w2)
         else (Inr wrapped_stmt, w2))"

subsection \<open>Closures used in the examples\<close>

text \<open>
  The caller's state in the examples is a list of lines, one per hook call that went
  through.
\<close>

definition noting_update_fn :: "string \<Rightarrow> string list UpdateHookFn" where
  "noting_update_fn tag type db_name table_name row_id u =
     (Inr (), u @ [tag @ '' '' @ db_name @ ''.'' @ table_name])"

definition throwing_update_fn :: "string list UpdateHookFn" where
  "throwing_update_fn type db_name table_name row_id u =
     (Inl (other_exception ''update closure failed''), u)"

definition answering_commit_fn :: "bool \<Rightarrow> string list CommitHookFn" where
  "answering_commit_fn allow u = (Inr allow, u @ [''commit''])"

definition throwing_commit_fn :: "string list CommitHookFn" where
  "throwing_commit_fn u = (Inl (other_exception ''commit closure failed''), u)"

definition noting_rollback_fn :: "string \<Rightarrow> string list RollbackHookFn" where
  "noting_rollback_fn tag u = (Inr (), u @ [tag])"

definition throwing_rollback_fn :: "string list RollbackHookFn" where
  "throwing_rollback_fn u = (Inl (other_exception ''rollback closure failed''), u)"

subsection \<open>Engines used in the examples\<close>

text \<open>An engine that gives the same three answers to every call.\<close>

definition fixed_engine ::
  "c_int \<times> sqlite3 option \<Rightarrow> c_int \<times> string option \<Rightarrow> c_int \<times> sqlite3_stmt option \<Rightarrow> engine"
where
  "fixed_engine open_answer exec_answer prepare_answer =
     \<lparr>sqlite3_open_v2 = (\<lambda>tr path flags. open_answer),
      sqlite3_errstr = (\<lambda>c. if c = 0 then ''not an error''
                            else if c = 1 then ''SQL logic error''
                            else if c = 14 then ''unable to open database file''
                            else ''unknown error''),
      sqlite3_exec = (\<lambda>tr db sql. exec_answer),
      sqlite3_prepare_v2 = (\<lambda>tr db sql n. prepare_answer)\<rparr>"

definition empty_world :: world where
  "empty_world = \<lparr>calls = [], Stmt_objects = 0\<rparr>"

section \<open>Theorems\<close>

subsection \<open>\<open>exec\<close>\<close>

text \<open>
  C1. The claim: whenever the engine's exec call answers a status other than success,
  \<open>exec\<close> throws, with the engine's message, and it returns normally only on
  success. The code throws only when the status is not success and the engine also
  stored a message; its branch for a missing message (\<open>Unknown error\<close>) sits under
  that same test and is never reached. On a connection adopted from a null pointer the
  engine answers the status 21 and stores no message: \<open>exec\<close> returns normally.
\<close>

theorem Db_exec_status_without_message_returns:
  "Db_exec (fixed_engine (0, Some 1) (21, None) (0, None)) (Db_inherit_db None :: nat Db)
     ''SELECT 1'' empty_world
   = (Inr (), \<lparr>calls = [Sqlite3_exec None ''SELECT 1''], Stmt_objects = 0\<rparr>)"
  by (simp add: Db_exec_def fixed_engine_def Db_inherit_db_def Db_ctor_def empty_world_def
      native_def)

subsection \<open>\<open>open\<close>\<close>

text \<open>
  C5. When the engine's open call answers a status other than success, \<open>open\<close>
  throws a \<open>runtime_error\<close> whose message is the engine's diagnostic string for that
  status, so it produces no \<open>Db\<close>; and the only native calls it makes are the open
  call and, when the engine stored a handle, \<open>sqlite3_close_v2\<close> on that handle, made
  while the exception unwinds.
\<close>

theorem Db_open_failure_releases:
  assumes "sqlite3_open_v2 eng (calls w) path open_flags = (error_code, db)"
      and "error_code \<noteq> SQLITE_OK"
  shows "(Db_open eng path w :: (exn + 'u Db) \<times> world) =
           (Inl (runtime_error (sqlite3_errstr eng error_code)),
            w\<lparr>calls := calls w @ Sqlite3_open_v2 path open_flags #
                 (case db of None \<Rightarrow> [] | Some h \<Rightarrow> [Sqlite3_close_v2 h])\<rparr>)"
  using assms
  by (simp add: Db_open_def Let_def unique_ptr_destroy_def Closer_def native_def
      split: option.splits)

theorem Db_open_failure_releases_witness:
  "sqlite3_open_v2 (fixed_engine (14, Some 7) (0, None) (0, None)) (calls empty_world)
     ''/no/such/dir/a.db'' open_flags = (14, Some 7)
   \<and> (14 :: c_int) \<noteq> SQLITE_OK
   \<and> (Db_open (fixed_engine (14, Some 7) (0, None) (0, None)) ''/no/such/dir/a.db'' empty_world
        :: (exn + nat Db) \<times> world)
     = (Inl (runtime_error ''unable to open database file''),
        \<lparr>calls = [Sqlite3_open_v2 ''/no/such/dir/a.db'' open_flags, Sqlite3_close_v2 7],
         Stmt_objects = 0\<rparr>)"
proof -
  have a: "sqlite3_open_v2 (fixed_engine (14, Some 7) (0, None) (0, None)) (calls empty_world)
     ''/no/such/dir/a.db'' open_flags = (14, Some 7)"
    by (simp add: fixed_engine_def)
  have b: "(14 :: c_int) \<noteq> SQLITE_OK"
    by (simp add: SQLITE_OK_def)
  show ?thesis
    using a b Db_open_failure_releases [OF a b, where 'u = nat]
    by (simp add: fixed_engine_def empty_world_def)
qed

lemma bit_single: "bit (2 ^ a :: c_int) n = (n < 32 \<and> n = a)"
  by (auto simp add: bit_exp_iff)

lemma open_flag_bits:
  "bit SQLITE_OPEN_READWRITE n = (n = 1)"
  "bit SQLITE_OPEN_CREATE n = (n = 2)"
  "bit SQLITE_OPEN_NOMUTEX n = (n = 15)"
  "bit SQLITE_OPEN_PRIVATECACHE n = (n = 18)"
proof -
  have "SQLITE_OPEN_READWRITE = 2 ^ 1" by (simp add: SQLITE_OPEN_READWRITE_def)
  then show "bit SQLITE_OPEN_READWRITE n = (n = 1)"
    using bit_single [of 1 n] by auto
  have "SQLITE_OPEN_CREATE = 2 ^ 2" by (simp add: SQLITE_OPEN_CREATE_def)
  then show "bit SQLITE_OPEN_CREATE n = (n = 2)"
    using bit_single [of 2 n] by auto
  have "SQLITE_OPEN_NOMUTEX = 2 ^ 15" by (simp add: SQLITE_OPEN_NOMUTEX_def)
  then show "bit SQLITE_OPEN_NOMUTEX n = (n = 15)"
    using bit_single [of 15 n] by auto
  have "SQLITE_OPEN_PRIVATECACHE = 2 ^ 18" by (simp add: SQLITE_OPEN_PRIVATECACHE_def)
  then show "bit SQLITE_OPEN_PRIVATECACHE n = (n = 18)"
    using bit_single [of 18 n] by auto
qed

text \<open>
  C9. For every path, \<open>open\<close> makes one open call, first of its native calls, and
  passes it the flags read-write, create, no-mutex and private-cache joined by
  \<open>OR\<close>; what \<open>open\<close> returns is decided by the engine's answer at exactly these
  flags. Each of the four options is one bit of its own (bits 1, 2, 15 and 18), and
  the flags passed have these four bits set and no other.
\<close>

theorem Db_open_passes_the_four_flags:
  "calls (snd (Db_open eng path w :: (exn + 'u Db) \<times> world))
     = calls w @
       Sqlite3_open_v2 path
         (SQLITE_OPEN_READWRITE OR SQLITE_OPEN_CREATE OR SQLITE_OPEN_NOMUTEX
            OR SQLITE_OPEN_PRIVATECACHE) #
       (case sqlite3_open_v2 eng (calls w) path open_flags of
          (rc, db) \<Rightarrow> if rc = SQLITE_OK then []
                      else (case db of None \<Rightarrow> [] | Some h \<Rightarrow> [Sqlite3_close_v2 h]))
   \<and> (fst (Db_open eng path w) :: exn + 'u Db)
     = (case sqlite3_open_v2 eng (calls w) path open_flags of
          (rc, db) \<Rightarrow> if rc = SQLITE_OK then Inr (Db_ctor db)
                      else Inl (runtime_error (sqlite3_errstr eng rc)))
   \<and> bit open_flags n = (n = 1 \<or> n = 2 \<or> n = 15 \<or> n = 18)
   \<and> bit SQLITE_OPEN_READWRITE n = (n = 1)
   \<and> bit SQLITE_OPEN_CREATE n = (n = 2)
   \<and> bit SQLITE_OPEN_NOMUTEX n = (n = 15)
   \<and> bit SQLITE_OPEN_PRIVATECACHE n = (n = 18)"
proof -
  have trace: "calls (snd (Db_open eng path w :: (exn + 'u Db) \<times> world))
     = calls w @
       Sqlite3_open_v2 path
         (SQLITE_OPEN_READWRITE OR SQLITE_OPEN_CREATE OR SQLITE_OPEN_NOMUTEX
            OR SQLITE_OPEN_PRIVATECACHE) #
       (case sqlite3_open_v2 eng (calls w) path open_flags of
          (rc, db) \<Rightarrow> if rc = SQLITE_OK then []
                      else (case db of None \<Rightarrow> [] | Some h \<Rightarrow> [Sqlite3_close_v2 h]))"
    by (simp add: Db_open_def Let_def unique_ptr_destroy_def Closer_def native_def
        open_flags_def [symmetric] split: prod.splits option.splits)
  have answer: "(fst (Db_open eng path w) :: exn + 'u Db)
     = (case sqlite3_open_v2 eng (calls w) path open_flags of
          (rc, db) \<Rightarrow> if rc = SQLITE_OK then Inr (Db_ctor db)
                      else Inl (runtime_error (sqlite3_errstr eng rc)))"
    by (simp add: Db_open_def Let_def split: prod.splits)
  have bits: "bit open_flags n = (n = 1 \<or> n = 2 \<or> n = 15 \<or> n = 18)"
    by (simp only: open_flags_def bit_or_iff open_flag_bits)
  from trace answer bits open_flag_bits [of n] show ?thesis
    by blast
qed

subsection \<open>\<open>prepare\<close>\<close>

text \<open>
  C4. When the engine's prepare call answers a status other than success, \<open>prepare\<close>
  throws a \<open>runtime_error\<close> whose message is the engine's string for that status, so
  no \<open>Stmt\<close> reaches the caller; the \<open>Stmt\<close> object it had allocated is destroyed
  again (as many \<open>Stmt\<close> objects are alive afterwards as before), and a native
  statement the engine stored, if any, is finalized.
\<close>

theorem Db_prepare_failure_leaves_no_statement:
  assumes "sqlite3_prepare_v2 eng (calls w) (m_db this) sql (word_of_nat (length sql))
             = (error_code, stmt)"
      and "error_code \<noteq> SQLITE_OK"
  shows "Db_prepare eng this sql w =
           (Inl (runtime_error (sqlite3_errstr eng error_code)),
            w\<lparr>calls := calls w @ Sqlite3_prepare_v2 (m_db this) sql (word_of_nat (length sql)) #
                 (case stmt of None \<Rightarrow> [] | Some s \<Rightarrow> [Sqlite3_finalize s])\<rparr>)"
  using assms
  by (simp add: Db_prepare_def Let_def new_Stmt_def delete_Stmt_def native_def
      split: option.splits)

theorem Db_prepare_failure_leaves_no_statement_witness:
  "sqlite3_prepare_v2 (fixed_engine (0, Some 7) (0, None) (1, None)) (calls empty_world)
      (m_db (Db_inherit_db (Some 7) :: nat Db)) ''not valid sql''
      (word_of_nat (length ''not valid sql'')) = (1, None)
   \<and> (1 :: c_int) \<noteq> SQLITE_OK
   \<and> Db_prepare (fixed_engine (0, Some 7) (0, None) (1, None)) (Db_inherit_db (Some 7) :: nat Db)
        ''not valid sql'' empty_world
     = (Inl (runtime_error ''SQL logic error''),
        \<lparr>calls = [Sqlite3_prepare_v2 (Some 7) ''not valid sql'' 13], Stmt_objects = 0\<rparr>)"
proof -
  have a: "sqlite3_prepare_v2 (fixed_engine (0, Some 7) (0, None) (1, None)) (calls empty_world)
      (m_db (Db_inherit_db (Some 7) :: nat Db)) ''not valid sql''
      (word_of_nat (length ''not valid sql'')) = (1, None)"
    by (simp add: fixed_engine_def)
  have b: "(1 :: c_int) \<noteq> SQLITE_OK"
    by (simp add: SQLITE_OK_def)
  show ?thesis
    using a b Db_prepare_failure_leaves_no_statement [OF a b]
    by (simp add: fixed_engine_def empty_world_def Db_inherit_db_def Db_ctor_def)
qed

subsection \<open>The hook trampolines\<close>

text \<open>
  C6. For every closure registered as the commit hook: when the closure returns \<open>true\<close>
  the commit trampoline returns 0 to the engine, and when it returns \<open>false\<close> the
  trampoline returns a value other than 0; so the value is 0 exactly when the closure
  allowed the commit. The caller's state is the one the closure left.
\<close>

theorem commit_trampoline_allow_iff:
  assumes "commit_fn u = (Inr result, u')"
  shows "\<exists>rc. commit_hook_trampoline (fst (Db_commit_hook (Some commit_fn) (db, w))) u
                 = (Inr rc, u')
           \<and> (rc = 0) = result \<and> (rc \<noteq> 0) = (\<not> result)"
  using assms
  by (simp add: commit_hook_trampoline_def Db_commit_hook_def call_CommitHookFn_def)

theorem commit_trampoline_allow_iff_witness:
  "answering_commit_fn False [] = (Inr False, [''commit''])
   \<and> (\<exists>rc. commit_hook_trampoline
              (fst (Db_commit_hook (Some (answering_commit_fn False))
                     (Db_inherit_db (Some 7), empty_world))) []
            = (Inr rc, [''commit'']) \<and> (rc = 0) = False \<and> (rc \<noteq> 0) = (\<not> False))"
proof -
  have a: "answering_commit_fn False [] = (Inr False, [''commit''])"
    by (simp add: answering_commit_fn_def)
  show ?thesis
    using a commit_trampoline_allow_iff
        [where commit_fn = "answering_commit_fn False" and u = "[]" and result = False
           and u' = "[''commit'']" and db = "Db_inherit_db (Some 7)" and w = empty_world]
    by simp
qed

text \<open>
  C7. On a connection whose member for a hook kind holds no closure, the trampoline of
  that kind does nothing: the update and rollback trampolines return with the
  caller's state untouched, and the commit trampoline returns 0 (allow), for every
  change type, name and row id.
\<close>

theorem trampolines_default_without_closure:
  "(m_update_hook db = None \<longrightarrow>
      update_hook_trampoline db change_type db_name table_name row_id u = (Inr (), u))
   \<and> (m_commit_hook db = None \<longrightarrow> commit_hook_trampoline db u = (Inr 0, u))
   \<and> (m_rollback_hook db = None \<longrightarrow> rollback_hook_trampoline db u = (Inr (), u))"
  by (simp add: update_hook_trampoline_def commit_hook_trampoline_def
      rollback_hook_trampoline_def)

theorem trampolines_default_without_closure_witness:
  "m_update_hook (Db_inherit_db (Some 7) :: string list Db) = None
   \<and> m_commit_hook (Db_inherit_db (Some 7) :: string list Db) = None
   \<and> m_rollback_hook (Db_inherit_db (Some 7) :: string list Db) = None
   \<and> update_hook_trampoline (Db_inherit_db (Some 7)) 18 ''main'' ''t'' 1 [''before'']
       = (Inr (), [''before''])
   \<and> commit_hook_trampoline (Db_inherit_db (Some 7)) [''before''] = (Inr 0, [''before''])
   \<and> rollback_hook_trampoline (Db_inherit_db (Some 7)) [''before''] = (Inr (), [''before''])"
proof -
  have a: "m_update_hook (Db_inherit_db (Some 7) :: string list Db) = None"
    and b: "m_commit_hook (Db_inherit_db (Some 7) :: string list Db) = None"
    and c: "m_rollback_hook (Db_inherit_db (Some 7) :: string list Db) = None"
    by (simp_all add: Db_inherit_db_def Db_ctor_def)
  show ?thesis
    using a b c
      trampolines_default_without_closure
        [of "Db_inherit_db (Some 7) :: string list Db" 18 "''main''" "''t''" 1 "[''before'']"]
    by simp
qed

text \<open>
  C10. After an empty function object was registered for a hook kind, a call of the
  stored object would throw \<open>bad_function_call\<close>, and the trampoline never makes
  that call: the update and rollback trampolines return with the caller's state
  untouched and the commit trampoline returns 0, and each trampoline is the same
  function as on a freshly constructed connection, where nothing was ever registered.
\<close>

theorem empty_closure_is_never_called:
  "update_hook_trampoline (fst (Db_update_hook None (db, w))) change_type db_name table_name row_id u
     = (Inr (), u)
   \<and> commit_hook_trampoline (fst (Db_commit_hook None (db, w))) u = (Inr 0, u)
   \<and> rollback_hook_trampoline (fst (Db_rollback_hook None (db, w))) u = (Inr (), u)
   \<and> call_UpdateHookFn (m_update_hook (fst (Db_update_hook None (db, w)))) t db_name table_name row_id u
     = (Inl bad_function_call, u)
   \<and> call_CommitHookFn (m_commit_hook (fst (Db_commit_hook None (db, w)))) u
     = (Inl bad_function_call, u)
   \<and> call_RollbackHookFn (m_rollback_hook (fst (Db_rollback_hook None (db, w)))) u
     = (Inl bad_function_call, u)
   \<and> update_hook_trampoline (fst (Db_update_hook None (db, w)))
     = update_hook_trampoline (Db_ctor (m_db db) :: 'u Db)
   \<and> commit_hook_trampoline (fst (Db_commit_hook None (db, w)))
     = commit_hook_trampoline (Db_ctor (m_db db) :: 'u Db)
   \<and> rollback_hook_trampoline (fst (Db_rollback_hook None (db, w)))
     = rollback_hook_trampoline (Db_ctor (m_db db) :: 'u Db)"
  by (simp add: update_hook_trampoline_def commit_hook_trampoline_def
      rollback_hook_trampoline_def Db_update_hook_def Db_commit_hook_def Db_rollback_hook_def
      call_UpdateHookFn_def call_CommitHookFn_def call_RollbackHookFn_def
      Db_ctor_def fun_eq_iff)

subsection \<open>Registration\<close>

lemma fold_Db_update_hook:
  "fst (fold Db_update_hook (fs @ [g]) s) = (fst s)\<lparr>m_update_hook := g\<rparr>"
proof (induction fs arbitrary: s)
  case Nil
  show ?case by (cases s) (simp add: Db_update_hook_def)
next
  case (Cons f fs)
  show ?case using Cons.IH [of "Db_update_hook f s"]
    by (cases s) (simp add: Db_update_hook_def)
qed

lemma fold_Db_commit_hook:
  "fst (fold Db_commit_hook (fs @ [g]) s) = (fst s)\<lparr>m_commit_hook := g\<rparr>"
proof (induction fs arbitrary: s)
  case Nil
  show ?case by (cases s) (simp add: Db_commit_hook_def)
next
  case (Cons f fs)
  show ?case using Cons.IH [of "Db_commit_hook f s"]
    by (cases s) (simp add: Db_commit_hook_def)
qed

lemma fold_Db_rollback_hook:
  "fst (fold Db_rollback_hook (fs @ [g]) s) = (fst s)\<lparr>m_rollback_hook := g\<rparr>"
proof (induction fs arbitrary: s)
  case Nil
  show ?case by (cases s) (simp add: Db_rollback_hook_def)
next
  case (Cons f fs)
  show ?case using Cons.IH [of "Db_rollback_hook f s"]
    by (cases s) (simp add: Db_rollback_hook_def)
qed

text \<open>
  C8. For each hook kind and every sequence of registrations of that kind on a
  connection: the connection has one member for the kind, and after the sequence it
  holds the closure registered last, whatever was registered before. A later firing
  calls that closure and no other. With \<open>uf\<close>, \<open>cf\<close>, \<open>rf\<close> the closures
  registered last: at the engine's codes for insert, update and delete the update
  trampoline does what \<open>uf\<close> does on the kind of that code, the names and the row
  id; the commit trampoline does what \<open>cf\<close> does and returns 0 or 1 by its answer;
  the rollback trampoline does what \<open>rf\<close> does. When the object registered last is
  empty, the firing does nothing. In each case the trampoline is the same function as
  if the last registration had been the only one.
\<close>

theorem registration_replaces_previous_closure:
  "m_update_hook (fst (fold Db_update_hook (us @ [update_fn]) (db, w))) = update_fn
   \<and> update_hook_trampoline (fst (fold Db_update_hook (us @ [update_fn]) (db, w)))
     = update_hook_trampoline (fst (Db_update_hook update_fn (db, w)))
   \<and> m_commit_hook (fst (fold Db_commit_hook (cs @ [commit_fn]) (db, w))) = commit_fn
   \<and> commit_hook_trampoline (fst (fold Db_commit_hook (cs @ [commit_fn]) (db, w)))
     = commit_hook_trampoline (fst (Db_commit_hook commit_fn (db, w)))
   \<and> m_rollback_hook (fst (fold Db_rollback_hook (rs @ [rollback_fn]) (db, w))) = rollback_fn
   \<and> rollback_hook_trampoline (fst (fold Db_rollback_hook (rs @ [rollback_fn]) (db, w)))
     = rollback_hook_trampoline (fst (Db_rollback_hook rollback_fn (db, w)))
   \<and> update_hook_trampoline (fst (fold Db_update_hook (us @ [Some uf]) (db, w)))
       SQLITE_INSERT db_name table_name row_id u
     = uf INSERT db_name table_name row_id u
   \<and> update_hook_trampoline (fst (fold Db_update_hook (us @ [Some uf]) (db, w)))
       SQLITE_UPDATE db_name table_name row_id u
     = uf UPDATE db_name table_name row_id u
   \<and> update_hook_trampoline (fst (fold Db_update_hook (us @ [Some uf]) (db, w)))
       SQLITE_DELETE db_name table_name row_id u
     = uf DELETE db_name table_name row_id u
   \<and> commit_hook_trampoline (fst (fold Db_commit_hook (cs @ [Some cf]) (db, w))) u
     = (case cf u of
          (Inl e, u') \<Rightarrow> (Inl e, u')
        | (Inr result, u') \<Rightarrow> (Inr (if result then 0 else 1), u'))
   \<and> rollback_hook_trampoline (fst (fold Db_rollback_hook (rs @ [Some rf]) (db, w))) u = rf u
   \<and> update_hook_trampoline (fst (fold Db_update_hook (us @ [None]) (db, w)))
       change_type db_name table_name row_id u
     = (Inr (), u)
   \<and> commit_hook_trampoline (fst (fold Db_commit_hook (cs @ [None]) (db, w))) u = (Inr 0, u)
   \<and> rollback_hook_trampoline (fst (fold Db_rollback_hook (rs @ [None]) (db, w))) u
     = (Inr (), u)"
proof -
  have u: "fst (fold Db_update_hook (us @ [g]) (db, w)) = fst (Db_update_hook g (db, w))" for g
    by (simp only: fold_Db_update_hook) (simp add: Db_update_hook_def)
  have c: "fst (fold Db_commit_hook (cs @ [g]) (db, w)) = fst (Db_commit_hook g (db, w))" for g
    by (simp only: fold_Db_commit_hook) (simp add: Db_commit_hook_def)
  have r: "fst (fold Db_rollback_hook (rs @ [g]) (db, w)) = fst (Db_rollback_hook g (db, w))"
    for g
    by (simp only: fold_Db_rollback_hook) (simp add: Db_rollback_hook_def)
  have slots:
    "m_update_hook (fst (Db_update_hook update_fn (db, w))) = update_fn"
    "m_commit_hook (fst (Db_commit_hook commit_fn (db, w))) = commit_fn"
    "m_rollback_hook (fst (Db_rollback_hook rollback_fn (db, w))) = rollback_fn"
    by (simp_all add: Db_update_hook_def Db_commit_hook_def Db_rollback_hook_def)
  have upd:
    "update_hook_trampoline (fst (Db_update_hook (Some uf) (db, w)))
       SQLITE_INSERT db_name table_name row_id u = uf INSERT db_name table_name row_id u"
    "update_hook_trampoline (fst (Db_update_hook (Some uf) (db, w)))
       SQLITE_UPDATE db_name table_name row_id u = uf UPDATE db_name table_name row_id u"
    "update_hook_trampoline (fst (Db_update_hook (Some uf) (db, w)))
       SQLITE_DELETE db_name table_name row_id u = uf DELETE db_name table_name row_id u"
    by (simp_all add: update_hook_trampoline_def Db_update_hook_def switch_change_type_def
        SQLITE_INSERT_def SQLITE_UPDATE_def SQLITE_DELETE_def call_UpdateHookFn_def)
  have com:
    "commit_hook_trampoline (fst (Db_commit_hook (Some cf) (db, w))) u
     = (case cf u of
          (Inl e, u') \<Rightarrow> (Inl e, u')
        | (Inr result, u') \<Rightarrow> (Inr (if result then 0 else 1), u'))"
    by (simp add: commit_hook_trampoline_def Db_commit_hook_def call_CommitHookFn_def)
  have rol: "rollback_hook_trampoline (fst (Db_rollback_hook (Some rf) (db, w))) u = rf u"
    by (simp add: rollback_hook_trampoline_def Db_rollback_hook_def call_RollbackHookFn_def)
  have empty:
    "update_hook_trampoline (fst (Db_update_hook None (db, w)))
       change_type db_name table_name row_id u = (Inr (), u)"
    "commit_hook_trampoline (fst (Db_commit_hook None (db, w))) u = (Inr 0, u)"
    "rollback_hook_trampoline (fst (Db_rollback_hook None (db, w))) u = (Inr (), u)"
    by (simp_all add: update_hook_trampoline_def commit_hook_trampoline_def
        rollback_hook_trampoline_def Db_update_hook_def Db_commit_hook_def
        Db_rollback_hook_def)
  show ?thesis
    by (simp only: u c r slots upd com rol empty simp_thms)
qed

text \<open>
  Instances: two closures of a kind registered one after the other, then one firing.
  Only the second closure leaves its line, and the commit trampoline returns the
  second closure's deny.
\<close>

lemma second_registration_alone_is_called:
  "update_hook_trampoline
     (fst (fold Db_update_hook [Some (noting_update_fn ''first''), Some (noting_update_fn ''second'')]
             (Db_inherit_db (Some 7), empty_world)))
     18 ''main'' ''t'' 1 []
   = (Inr (), [''second main.t''])"
  by (simp add: update_hook_trampoline_def Db_update_hook_def Db_inherit_db_def Db_ctor_def
      switch_change_type_def SQLITE_INSERT_def SQLITE_UPDATE_def SQLITE_DELETE_def
      noting_update_fn_def call_UpdateHookFn_def)

lemma second_commit_registration_alone_is_called:
  "commit_hook_trampoline
     (fst (fold Db_commit_hook [Some (answering_commit_fn True), Some (answering_commit_fn False)]
             (Db_inherit_db (Some 7), empty_world)))
     []
   = (Inr 1, [''commit''])"
  by (simp add: commit_hook_trampoline_def Db_commit_hook_def Db_inherit_db_def Db_ctor_def
      answering_commit_fn_def call_CommitHookFn_def)

lemma second_rollback_registration_alone_is_called:
  "rollback_hook_trampoline
     (fst (fold Db_rollback_hook [Some (noting_rollback_fn ''first''), Some (noting_rollback_fn ''second'')]
             (Db_inherit_db (Some 7), empty_world)))
     []
   = (Inr (), [''second''])"
  by (simp add: rollback_hook_trampoline_def Db_rollback_hook_def Db_inherit_db_def Db_ctor_def
      noting_rollback_fn_def call_RollbackHookFn_def)

subsection \<open>Exceptions in the trampolines\<close>

text \<open>
  C2, as stated, fails. The claim: an exception thrown inside a registered closure
  never leaves the trampoline; the bridge catches it and answers the safe default (for
  commit: deny). The trampolines have no handler: with a closure that throws
  registered for each kind, each trampoline ends by that very exception, and the commit
  trampoline returns no value at all, so no deny.
\<close>

theorem closure_exception_leaves_trampoline:
  "commit_hook_trampoline
     (fst (Db_commit_hook (Some throwing_commit_fn) (Db_inherit_db (Some 7), empty_world)))
     [''before'']
   = (Inl (other_exception ''commit closure failed''), [''before''])
   \<and> update_hook_trampoline
     (fst (Db_update_hook (Some throwing_update_fn) (Db_inherit_db (Some 7), empty_world)))
     SQLITE_INSERT ''main'' ''t'' 1 [''before'']
   = (Inl (other_exception ''update closure failed''), [''before''])
   \<and> rollback_hook_trampoline
     (fst (Db_rollback_hook (Some throwing_rollback_fn) (Db_inherit_db (Some 7), empty_world)))
     [''before'']
   = (Inl (other_exception ''rollback closure failed''), [''before''])"
  by (simp add: commit_hook_trampoline_def update_hook_trampoline_def
      rollback_hook_trampoline_def Db_commit_hook_def Db_update_hook_def Db_rollback_hook_def
      Db_inherit_db_def Db_ctor_def throwing_commit_fn_def throwing_update_fn_def
      throwing_rollback_fn_def switch_change_type_def call_UpdateHookFn_def
      call_CommitHookFn_def call_RollbackHookFn_def)

text \<open>
  C2, amended. For every registered closure of each kind and every firing: an
  exception thrown inside the closure leaves the trampoline unchanged, with the
  caller's state as the closure left it (for the update hook: at a change type of the
  enumeration, the only ones at which the closure is called). Nothing is caught and no
  default answer is put in its place.
\<close>

theorem closure_exception_propagates:
  "(switch_change_type change_type = Some t \<longrightarrow>
      update_fn t db_name table_name row_id u = (Inl eu, uu) \<longrightarrow>
      update_hook_trampoline (fst (Db_update_hook (Some update_fn) (db, w)))
        change_type db_name table_name row_id u = (Inl eu, uu))
   \<and> (commit_fn u = (Inl ec, uc) \<longrightarrow>
      commit_hook_trampoline (fst (Db_commit_hook (Some commit_fn) (db, w))) u = (Inl ec, uc))
   \<and> (rollback_fn u = (Inl er, ur) \<longrightarrow>
      rollback_hook_trampoline (fst (Db_rollback_hook (Some rollback_fn) (db, w))) u
        = (Inl er, ur))"
  by (simp add: commit_hook_trampoline_def update_hook_trampoline_def
      rollback_hook_trampoline_def Db_commit_hook_def Db_update_hook_def Db_rollback_hook_def
      call_UpdateHookFn_def call_CommitHookFn_def call_RollbackHookFn_def)

theorem closure_exception_propagates_witness:
  "switch_change_type 23 = Some UPDATE
   \<and> throwing_update_fn UPDATE ''main'' ''t'' 5 [''before'']
       = (Inl (other_exception ''update closure failed''), [''before''])
   \<and> update_hook_trampoline
       (fst (Db_update_hook (Some throwing_update_fn) (Db_inherit_db (Some 7), empty_world)))
       23 ''main'' ''t'' 5 [''before'']
       = (Inl (other_exception ''update closure failed''), [''before''])
   \<and> throwing_commit_fn [''before'']
       = (Inl (other_exception ''commit closure failed''), [''before''])
   \<and> commit_hook_trampoline
       (fst (Db_commit_hook (Some throwing_commit_fn) (Db_inherit_db (Some 7), empty_world)))
       [''before'']
       = (Inl (other_exception ''commit closure failed''), [''before''])
   \<and> throwing_rollback_fn [''before'']
       = (Inl (other_exception ''rollback closure failed''), [''before''])
   \<and> rollback_hook_trampoline
       (fst (Db_rollback_hook (Some throwing_rollback_fn) (Db_inherit_db (Some 7), empty_world)))
       [''before'']
       = (Inl (other_exception ''rollback closure failed''), [''before''])"
proof -
  have a: "switch_change_type 23 = Some UPDATE"
    by (simp add: switch_change_type_def SQLITE_INSERT_def SQLITE_UPDATE_def)
  have b: "throwing_update_fn UPDATE ''main'' ''t'' 5 [''before'']
       = (Inl (other_exception ''update closure failed''), [''before''])"
    by (simp add: throwing_update_fn_def)
  have c: "throwing_commit_fn [''before'']
       = (Inl (other_exception ''commit closure failed''), [''before''])"
    by (simp add: throwing_commit_fn_def)
  have d: "throwing_rollback_fn [''before'']
       = (Inl (other_exception ''rollback closure failed''), [''before''])"
    by (simp add: throwing_rollback_fn_def)
  show ?thesis
    using a b c d closure_exception_propagates
      [where change_type = 23 and t = UPDATE and update_fn = throwing_update_fn
         and db_name = "''main''" and table_name = "''t''" and row_id = 5
         and u = "[''before'']" and uu = "[''before'']"
         and eu = "other_exception ''update closure failed''"
         and commit_fn = throwing_commit_fn and uc = "[''before'']"
         and ec = "other_exception ''commit closure failed''"
         and rollback_fn = throwing_rollback_fn and ur = "[''before'']"
         and er = "other_exception ''rollback closure failed''"
         and db = "Db_inherit_db (Some 7)" and w = empty_world]
    by simp
qed

subsection \<open>Change types\<close>

text \<open>
  C3, as stated, fails. The claim: every change type outside the enumeration that
  reaches the update trampoline is flagged as an internal error. The translation and
  its error sit inside the test for a stored closure: after an empty function object
  was registered, the trampoline is installed, and the change type 99 passes through
  it with no error.
\<close>

theorem unknown_change_type_unflagged_without_closure:
  "switch_change_type 99 = None
   \<and> update_hook_trampoline
       (fst (Db_update_hook None (Db_inherit_db (Some 7), empty_world)))
       99 ''main'' ''t'' 1 [''before'']
     = (Inr (), [''before''])"
  by (simp add: update_hook_trampoline_def Db_update_hook_def Db_inherit_db_def Db_ctor_def
      switch_change_type_def SQLITE_INSERT_def SQLITE_UPDATE_def SQLITE_DELETE_def)

text \<open>
  C3, amended. While the connection holds a closure for the update hook: a change
  type outside the enumeration ends the trampoline by the \<open>runtime_error\<close>
  \<open>Unexpected update type from sqlite\<close>, whatever the closure is and with the
  caller's state untouched, so the closure is not called; at the engine's codes for
  insert, update and delete the trampoline does what the closure does on the kind of
  that code, the database name, the table name and the row id.
\<close>

theorem update_trampoline_translates_or_flags:
  assumes "m_update_hook db = Some update_fn"
  shows "(change_type \<noteq> SQLITE_INSERT \<and> change_type \<noteq> SQLITE_UPDATE
            \<and> change_type \<noteq> SQLITE_DELETE \<longrightarrow>
          update_hook_trampoline db change_type db_name table_name row_id u
            = (Inl (runtime_error ''Unexpected update type from sqlite''), u))
       \<and> update_hook_trampoline db SQLITE_INSERT db_name table_name row_id u
            = update_fn INSERT db_name table_name row_id u
       \<and> update_hook_trampoline db SQLITE_UPDATE db_name table_name row_id u
            = update_fn UPDATE db_name table_name row_id u
       \<and> update_hook_trampoline db SQLITE_DELETE db_name table_name row_id u
            = update_fn DELETE db_name table_name row_id u"
  using assms
  by (simp add: update_hook_trampoline_def switch_change_type_def SQLITE_INSERT_def
      SQLITE_UPDATE_def SQLITE_DELETE_def call_UpdateHookFn_def)

theorem update_trampoline_translates_or_flags_witness:
  "m_update_hook (fst (Db_update_hook (Some (noting_update_fn ''seen''))
                         (Db_inherit_db (Some 7), empty_world)))
     = Some (noting_update_fn ''seen'')
   \<and> (99 :: c_int) \<noteq> SQLITE_INSERT \<and> (99 :: c_int) \<noteq> SQLITE_UPDATE
   \<and> (99 :: c_int) \<noteq> SQLITE_DELETE
   \<and> update_hook_trampoline
       (fst (Db_update_hook (Some (noting_update_fn ''seen''))
               (Db_inherit_db (Some 7), empty_world)))
       99 ''main'' ''t'' 1 []
     = (Inl (runtime_error ''Unexpected update type from sqlite''), [])
   \<and> update_hook_trampoline
       (fst (Db_update_hook (Some (noting_update_fn ''seen''))
               (Db_inherit_db (Some 7), empty_world)))
       SQLITE_INSERT ''main'' ''t'' 1 []
     = (Inr (), [''seen main.t''])"
proof -
  have a: "m_update_hook (fst (Db_update_hook (Some (noting_update_fn ''seen''))
                         (Db_inherit_db (Some 7), empty_world)))
     = Some (noting_update_fn ''seen'')"
    by (simp add: Db_update_hook_def)
  have b: "(99 :: c_int) \<noteq> SQLITE_INSERT \<and> (99 :: c_int) \<noteq> SQLITE_UPDATE
     \<and> (99 :: c_int) \<noteq> SQLITE_DELETE"
    by (simp add: SQLITE_INSERT_def SQLITE_UPDATE_def SQLITE_DELETE_def)
  show ?thesis
    using a b
      update_trampoline_translates_or_flags
        [OF a, of 99 "''main''" "''t''" 1 "[]"]
    by (simp add: noting_update_fn_def)
qed

end
